theory Spec2Isabelle
  imports Main "HOL-Library.Sublist"
begin

section \<open>JavaScript values\<close>

text \<open>
  A thrown value is an error object: the constructor is the class of the error, the
  argument its \<^verbatim>\<open>message\<close>. An error object of this program has no other field
  (no stage, no cause).
\<close>

datatype js_error =
    Error string
  | TypeError string
  | ReferenceError string
  | DOMException string

primrec message :: "js_error \<Rightarrow> string" where
  "message (Error m) = m"
| "message (TypeError m) = m"
| "message (ReferenceError m) = m"
| "message (DOMException m) = m"

text \<open>
  The final state of a promise. \<open>Pending\<close> is a promise that never settles. An
  \<^verbatim>\<open>async\<close> function is modelled by the final state of the promise it returns
  together with the requests it issued, in the order it issued them.
\<close>

datatype 'a promise = Fulfilled 'a | Rejected js_error | Pending

primrec is_Fulfilled :: "'a promise \<Rightarrow> bool" where
  "is_Fulfilled (Fulfilled x) = True"
| "is_Fulfilled (Rejected e) = False"
| "is_Fulfilled Pending = False"

primrec is_Rejected :: "'a promise \<Rightarrow> bool" where
  "is_Rejected (Fulfilled x) = False"
| "is_Rejected (Rejected e) = True"
| "is_Rejected Pending = False"

text \<open>A synchronous computation that throws or returns, seen as a settled promise.\<close>

primrec settle :: "js_error + 'a \<Rightarrow> 'a promise" where
  "settle (Inl e) = Rejected e"
| "settle (Inr x) = Fulfilled x"

text \<open>\<^verbatim>\<open>s.split(c)\<close> for a one-character separator: \<^verbatim>\<open>''.split('/')\<close> is \<^verbatim>\<open>['']\<close>.\<close>

fun js_split :: "char \<Rightarrow> string \<Rightarrow> string list" where
  "js_split c [] = [[]]"
| "js_split c (x # xs) =
     (if x = c then [] # js_split c xs
      else (case js_split c xs of [] \<Rightarrow> [[x]] | w # ws \<Rightarrow> (x # w) # ws))"

text \<open>\<^verbatim>\<open>pathname.split('/').filter((segment) => segment !== '')\<close>\<close>

definition path_segments :: "string \<Rightarrow> string list" where
  "path_segments p = filter (\<lambda>segment. segment \<noteq> []) (js_split CHR ''/'' p)"

text \<open>\<^verbatim>\<open>xs[i]\<close>: \<^verbatim>\<open>undefined\<close> (here \<open>None\<close>) out of range.\<close>

definition at_index :: "'a list \<Rightarrow> nat \<Rightarrow> 'a option" where
  "at_index xs i = (if i < length xs then Some (xs ! i) else None)"

text \<open>A value inside a template literal: \<^verbatim>\<open>undefined\<close> prints as the word.\<close>

definition template :: "string option \<Rightarrow> string" where
  "template v = (case v of None \<Rightarrow> ''undefined'' | Some s \<Rightarrow> s)"

definition startsWith :: "string \<Rightarrow> string \<Rightarrow> bool" where
  "startsWith s p = prefix p s"

text \<open>A number inside a template literal (an HTTP status) prints in decimal.\<close>

definition digit_char :: "nat \<Rightarrow> char" where
  "digit_char d = ''0123456789'' ! d"

fun string_of_nat :: "nat \<Rightarrow> string" where
  "string_of_nat n =
     (if n < 10 then [digit_char n] else string_of_nat (n div 10) @ [digit_char (n mod 10)])"

section \<open>The platform: URL objects, fetch, clock and random numbers\<close>

text \<open>
  The program reads two fields of a URL object. The platform's URL parser is not part of
  the repository: an argument of \<^verbatim>\<open>new URL(x)\<close> is given by the URL object the parser
  makes of it, \<open>None\<close> when the parser rejects it, as it rejects \<^verbatim>\<open>undefined\<close>.
\<close>

record URL =
  hostname :: string
  pathname :: string

definition URL_new :: "URL option \<Rightarrow> js_error + URL" where
  "URL_new x =
     (case x of
        None \<Rightarrow> Inl (TypeError ''Failed to construct 'URL': Invalid URL'')
      | Some u \<Rightarrow> Inr u)"

text \<open>
  A response of the platform's \<^verbatim>\<open>fetch\<close>: \<^verbatim>\<open>response.ok\<close>,
  \<^verbatim>\<open>response.status\<close> and the promise \<^verbatim>\<open>response.json()\<close> returns.
  What the network does with a request: after how many milliseconds the promise of
  \<^verbatim>\<open>fetch\<close> would settle by itself (\<open>None\<close>: never) and how.
\<close>

datatype 'b http_response = Response (ok: bool) (status: nat) (json: "'b promise")

record 'b fetch_reply =
  settles_after :: "nat option"
  settled :: "js_error + 'b http_response"

definition abort_error :: js_error where
  "abort_error = DOMException ''signal is aborted without reason''"

text \<open>
  \<^verbatim>\<open>fetch(url, {signal})\<close>. The signal is given by the delay of the timer that
  aborts it, \<open>None\<close> for a call without signal. A call that has not settled when the
  timer fires is rejected with the abort error (also one that would settle in that very
  millisecond, where the platform leaves the order open); a call without signal waits
  for as long as the network takes.
\<close>

definition fetch :: "'b fetch_reply \<Rightarrow> nat option \<Rightarrow> 'b http_response promise" where
  "fetch r signal =
     (case signal of
        None \<Rightarrow> (case settles_after r of None \<Rightarrow> Pending | Some d \<Rightarrow> settle (settled r))
      | Some t \<Rightarrow>
          (case settles_after r of
             None \<Rightarrow> Rejected abort_error
           | Some d \<Rightarrow> if d < t then settle (settled r) else Rejected abort_error))"

text \<open>
  A JSON body as the program reads it: \<open>Null\<close> is the body \<^verbatim>\<open>null\<close> (reading a
  property of it throws), any other body is given by the property the program reads.
  Of the body of the short-link redirector that is \<^verbatim>\<open>url\<close>, given by what
  \<^verbatim>\<open>new URL\<close> makes of it.
\<close>

datatype 'a json = Null | Body 'a

type_synonym redirect_json = "URL option json"

record starterPackView =
  sp_list_uri :: "string option"

record platform =
  go_bsky_app :: "string \<Rightarrow> redirect_json fetch_reply"
  public_api_getStarterPack :: "string \<Rightarrow> starterPackView option json fetch_reply"
  public_api_getList :: "string \<Rightarrow> unit json fetch_reply"
  Math_random36 :: string
  Date_toISOString :: "nat \<Rightarrow> string"

text \<open>
  \<open>go_bsky_app pf u\<close> and the two \<open>public_api\<close> fields are what the network does
  with a GET of the URL \<open>u\<close>. \<open>sp_list_uri\<close> is \<^verbatim>\<open>starterPack.list.uri\<close>,
  \<open>None\<close> for a starter pack without list; of the body of
  \<^verbatim>\<open>getStarterPack\<close> the program reads \<^verbatim>\<open>starterPack\<close>, \<open>None\<close> when the
  body has none; of the body of \<^verbatim>\<open>getList\<close> it only logs the fields.
  \<open>Math_random36 pf\<close> is \<^verbatim>\<open>Math.random().toString(36)\<close>;
  \<open>Date_toISOString pf k\<close> is \<^verbatim>\<open>new Date().toISOString()\<close> at the \<open>k\<close>-th record
  the run creates.
\<close>

section \<open>The agent of the SDK\<close>

record listView =
  lv_name :: string
  lv_description :: "string option"

record listItemView =
  subject_did :: string

record getList_output =
  gl_list :: listView
  gl_items :: "listItemView list"

datatype record_value =
    graph_list (purpose: string) (list_name: string) (list_description: "string option")
      (createdAt: string)
  | graph_listitem (subject: string) (member_of: string) (createdAt: string)

record createRecord_input =
  repo :: string
  collection :: string
  record_body :: record_value

record createRecord_output =
  uri :: string
  cid :: string

text \<open>
  The agent is handed to the converter by its caller. The number given to
  \<open>createRecord\<close> counts the records the run created before: the service may
  answer two equal requests differently.
\<close>

record agent =
  assertDid :: string
  getStarterPack_xrpc :: "string \<Rightarrow> starterPackView promise"
  getList_xrpc :: "string \<Rightarrow> getList_output promise"
  createRecord_xrpc :: "nat \<Rightarrow> createRecord_input \<Rightarrow> createRecord_output promise"

section \<open>Requests and runs\<close>

text \<open>
  What a run sends over the network: a \<^verbatim>\<open>fetch\<close> of a URL with the delay of its
  abort timer (\<open>None\<close>: no signal), or a call of the agent, which the program gives
  no signal.
\<close>

datatype request =
    Fetch string "nat option"
  | GetStarterPack string
  | GetList string
  | CreateRecord createRecord_input

type_synonym 'a run = "'a promise \<times> request list"

text \<open>\<^verbatim>\<open>const x = await m; ... f x\<close> inside an \<^verbatim>\<open>async\<close> function.\<close>

definition await :: "'a run \<Rightarrow> ('a \<Rightarrow> 'b run) \<Rightarrow> 'b run" where
  "await m f =
     (case m of
        (Fulfilled x, l) \<Rightarrow> (case f x of (p, l') \<Rightarrow> (p, l @ l'))
      | (Rejected e, l) \<Rightarrow> (Rejected e, l)
      | (Pending, l) \<Rightarrow> (Pending, l))"

primrec is_member_create :: "request \<Rightarrow> bool" where
  "is_member_create (Fetch u s) = False"
| "is_member_create (GetStarterPack a) = False"
| "is_member_create (GetList a) = False"
| "is_member_create (CreateRecord i) = (collection i = ''app.bsky.graph.listitem'')"

primrec is_list_create :: "request \<Rightarrow> bool" where
  "is_list_create (Fetch u s) = False"
| "is_list_create (GetStarterPack a) = False"
| "is_list_create (GetList a) = False"
| "is_list_create (CreateRecord i) = (collection i = ''app.bsky.graph.list'')"

primrec is_redirect :: "request \<Rightarrow> bool" where
  "is_redirect (Fetch u s) = startsWith u ''https://go.bsky.app/''"
| "is_redirect (GetStarterPack a) = False"
| "is_redirect (GetList a) = False"
| "is_redirect (CreateRecord i) = False"

section \<open>src/background/list-converter.js\<close>

subsection \<open>HttpClient\<close>

record HttpClient =
  timeout :: nat

definition HttpClient_new :: HttpClient where
  "HttpClient_new = \<lparr>timeout = 5000\<rparr>"

text \<open>
  \<^verbatim>\<open>HttpClient.fetch\<close>: the timer aborts the call after \<^verbatim>\<open>this.timeout\<close>
  milliseconds and is cleared once \<^verbatim>\<open>fetch\<close> has settled. A rejection and the
  error of a status that is not ok are caught and wrapped;
  \<^verbatim>\<open>return response.json()\<close> is not awaited inside the \<^verbatim>\<open>try\<close>, so its
  outcome is the outcome of the call as it is.
\<close>

definition HttpClient_fetch :: "HttpClient \<Rightarrow> string \<Rightarrow> 'b fetch_reply \<Rightarrow> 'b run" where
  "HttpClient_fetch this u r =
     ((case fetch r (Some (timeout this)) of
         Rejected e \<Rightarrow> Rejected (Error (''Network request failed: '' @ message e))
       | Pending \<Rightarrow> Pending
       | Fulfilled response \<Rightarrow>
           if \<not> ok response
           then Rejected (Error (''Network request failed: '' @
                  message (Error (''HTTP error! status: '' @ string_of_nat (status response)))))
           else json response),
      [Fetch u (Some (timeout this))])"

subsection \<open>ListConverter\<close>

record ListConverter =
  lc_agent :: agent
  httpClient :: HttpClient
  CONTENT_TYPE_JSON :: string

definition ListConverter_new :: "agent \<Rightarrow> ListConverter" where
  "ListConverter_new a =
     \<lparr>lc_agent = a, httpClient = HttpClient_new, CONTENT_TYPE_JSON = ''application/json''\<rparr>"

definition fetchStarterPackRedirect ::
  "platform \<Rightarrow> ListConverter \<Rightarrow> string \<Rightarrow> redirect_json run" where
  "fetchStarterPackRedirect pf this code =
     HttpClient_fetch (httpClient this) (''https://go.bsky.app/'' @ code)
       (go_bsky_app pf (''https://go.bsky.app/'' @ code))"

definition getShortCode :: "URL \<Rightarrow> js_error + string" where
  "getShortCode u =
     (if pathname u = [] then Inl (Error ''Invalid URL object'')
      else (let segments = path_segments (pathname u)
            in if length segments < 2 then Inl (Error ''Invalid URL path structure'')
               else Inr (segments ! 1)))"

definition getAtUri :: "URL option \<Rightarrow> js_error + string" where
  "getAtUri starterPackUrl =
     (case URL_new starterPackUrl of
        Inl e \<Rightarrow> Inl e
      | Inr u \<Rightarrow>
          (let segments = path_segments (pathname u);
               handleOrDid = at_index segments 1;
               rkey = at_index segments 2
           in Inr (''at://'' @ template handleOrDid @ ''/app.bsky.graph.list/'' @ template rkey)))"

text \<open>
  \<^verbatim>\<open>starterPackRedirect.url\<close>: reading a property of \<^verbatim>\<open>null\<close> throws.
\<close>

definition redirect_url :: "redirect_json \<Rightarrow> js_error + URL option" where
  "redirect_url b =
     (case b of
        Null \<Rightarrow> Inl (TypeError ''Cannot read properties of null (reading 'url')'')
      | Body x \<Rightarrow> Inr x)"

definition getStarterPackUri :: "platform \<Rightarrow> ListConverter \<Rightarrow> URL \<Rightarrow> string run" where
  "getStarterPackUri pf this u =
     (if startsWith (pathname u) ''/starter-pack-short/''
      then (case getShortCode u of
              Inl e \<Rightarrow> (Rejected e, [])
            | Inr shortCode \<Rightarrow>
                await (fetchStarterPackRedirect pf this shortCode)
                  (\<lambda>starterPackRedirect.
                     (case redirect_url starterPackRedirect of
                        Inl e \<Rightarrow> (Rejected e, [])
                      | Inr x \<Rightarrow> (settle (getAtUri x), []))))
      else (settle (getAtUri (Some u)), []))"

definition getStarterPack :: "ListConverter \<Rightarrow> string \<Rightarrow> starterPackView run" where
  "getStarterPack this atUri =
     (getStarterPack_xrpc (lc_agent this) atUri, [GetStarterPack atUri])"

definition getList :: "ListConverter \<Rightarrow> string \<Rightarrow> getList_output run" where
  "getList this atUri = (getList_xrpc (lc_agent this) atUri, [GetList atUri])"

text \<open>
  \<^verbatim>\<open>Math.random().toString(36).substring(7)\<close> drops seven characters. The list is
  the first record the run creates.
\<close>

definition list_input ::
  "platform \<Rightarrow> ListConverter \<Rightarrow> string \<Rightarrow> string option \<Rightarrow> createRecord_input" where
  "list_input pf this nm descr =
     \<lparr>repo = assertDid (lc_agent this),
      collection = ''app.bsky.graph.list'',
      record_body = graph_list ''app.bsky.graph.defs#curatelist''
        (nm @ '' - '' @ drop 7 (Math_random36 pf)) descr (Date_toISOString pf 0)\<rparr>"

definition createBskyList ::
  "platform \<Rightarrow> ListConverter \<Rightarrow> string \<Rightarrow> string option \<Rightarrow> createRecord_output run" where
  "createBskyList pf this nm descr =
     (createRecord_xrpc (lc_agent this) 0 (list_input pf this nm descr),
      [CreateRecord (list_input pf this nm descr)])"

text \<open>The record of the \<open>k\<close>-th member (\<open>k\<close> counts from 1: the list was record 0).\<close>

definition listitem_input ::
  "platform \<Rightarrow> ListConverter \<Rightarrow> string \<Rightarrow> nat \<times> listItemView \<Rightarrow> createRecord_input" where
  "listitem_input pf this listUri ku =
     \<lparr>repo = assertDid (lc_agent this),
      collection = ''app.bsky.graph.listitem'',
      record_body = graph_listitem (subject_did (snd ku)) listUri
        (Date_toISOString pf (fst ku))\<rparr>"

text \<open>
  \<^verbatim>\<open>params.users.map(...)\<close>: one call of \<^verbatim>\<open>createRecord\<close> per user, all issued
  before any is awaited. The \<^verbatim>\<open>catch\<close> inside the callback handles a synchronous
  throw of the call expression; with an agent that has a DID and users that have a
  subject nothing there throws.
\<close>

definition addUserPromises ::
  "platform \<Rightarrow> ListConverter \<Rightarrow> string \<Rightarrow> listItemView list \<Rightarrow> createRecord_output promise list"
  where
  "addUserPromises pf this listUri users =
     map (\<lambda>ku. createRecord_xrpc (lc_agent this) (fst ku) (listitem_input pf this listUri ku))
       (enumerate 1 users)"

text \<open>
  \<^verbatim>\<open>Promise.all\<close>: rejected once one of the promises is, fulfilled when all are. Of
  several rejections JavaScript takes the earliest in time; the model takes the first of
  the array, and the one caller drops the reason.
\<close>

definition Promise_all :: "'a promise list \<Rightarrow> 'a list promise" where
  "Promise_all ps =
     (case find is_Rejected ps of
        Some (Rejected e) \<Rightarrow> Rejected e
      | _ \<Rightarrow>
          if list_all is_Fulfilled ps
          then Fulfilled (concat (map (\<lambda>p. case p of Fulfilled x \<Rightarrow> [x] | _ \<Rightarrow> []) ps))
          else Pending)"

text \<open>
  \<^verbatim>\<open>#addUsersToList\<close>. The handler of the \<^verbatim>\<open>catch\<close> builds its log line from
  \<^verbatim>\<open>listUri\<close>, a name that is bound nowhere (the parameter is \<^verbatim>\<open>params\<close>):
  evaluating it throws a ReferenceError before \<^verbatim>\<open>throw error\<close> is reached.
\<close>

definition addUsersToList ::
  "platform \<Rightarrow> ListConverter \<Rightarrow> string \<Rightarrow> listItemView list \<Rightarrow> unit run" where
  "addUsersToList pf this listUri users =
     ((case Promise_all (addUserPromises pf this listUri users) of
         Rejected e \<Rightarrow> Rejected (ReferenceError ''listUri is not defined'')
       | Fulfilled xs \<Rightarrow> Fulfilled ()
       | Pending \<Rightarrow> Pending),
      map (\<lambda>ku. CreateRecord (listitem_input pf this listUri ku)) (enumerate 1 users))"

text \<open>\<^verbatim>\<open>starterPack.list.uri\<close>: a starter pack without list has no \<^verbatim>\<open>uri\<close> to read.\<close>

definition list_uri_of :: "starterPackView \<Rightarrow> js_error + string" where
  "list_uri_of starterPack =
     (case sp_list_uri starterPack of
        None \<Rightarrow> Inl (TypeError ''Cannot read properties of undefined (reading 'uri')'')
      | Some a \<Rightarrow> Inr a)"

text \<open>The body of the \<^verbatim>\<open>try\<close> of \<^verbatim>\<open>createListFromStarterPack\<close>.\<close>

definition try_createList :: "platform \<Rightarrow> ListConverter \<Rightarrow> URL \<Rightarrow> createRecord_output run" where
  "try_createList pf this u =
     await (getStarterPackUri pf this u) (\<lambda>atUri.
     await (getStarterPack this atUri) (\<lambda>starterPack.
     await (settle (list_uri_of starterPack), []) (\<lambda>a.
     await (getList this a) (\<lambda>out.
     await (createBskyList pf this (lv_name (gl_list out)) (lv_description (gl_list out)))
       (\<lambda>newList.
     await (addUsersToList pf this (uri newList) (gl_items out)) (\<lambda>finished.
     (Fulfilled newList, [])))))))"

definition createListFromStarterPack ::
  "platform \<Rightarrow> ListConverter \<Rightarrow> URL \<Rightarrow> createRecord_output run" where
  "createListFromStarterPack pf this u =
     (case try_createList pf this u of
        (Rejected e, l) \<Rightarrow> (Rejected (Error (''Failed to create list: '' @ message e)), l)
      | (Fulfilled newList, l) \<Rightarrow> (Fulfilled newList, l)
      | (Pending, l) \<Rightarrow> (Pending, l))"

section \<open>The message handler of the background page\<close>

text \<open>
  \<^verbatim>\<open>isStarterPackUrl\<close>, the same text in \<^verbatim>\<open>scripts/background.js\<close> and in
  \<^verbatim>\<open>MessageHandler\<close>: \<^verbatim>\<open>new URL(url)\<close> throws on what is not a URL.
\<close>

definition isStarterPackUrl :: "URL option \<Rightarrow> js_error + bool" where
  "isStarterPackUrl x =
     (case URL_new x of
        Inl e \<Rightarrow> Inl e
      | Inr urlObj \<Rightarrow>
          Inr (hostname urlObj = ''bsky.app'' \<and>
               (startsWith (pathname urlObj) ''/starter-pack/'' \<or>
                startsWith (pathname urlObj) ''/starter-pack-short/'' \<or>
                startsWith (pathname urlObj) ''/start/'')))"

text \<open>
  The response object; \<open>data\<close> is \<^verbatim>\<open>{ list }\<close>, \<open>None\<close> is \<^verbatim>\<open>null\<close>.
\<close>

record response =
  success :: bool
  data :: "createRecord_output option"
  error :: "string option"

definition createResponse ::
  "bool \<Rightarrow> createRecord_output option \<Rightarrow> string option \<Rightarrow> response" where
  "createResponse s d e = \<lparr>success = s, data = d, error = e\<rparr>"

text \<open>
  \<open>tab_url\<close> is \<^verbatim>\<open>sender?.tab?.url\<close> as \<^verbatim>\<open>new URL\<close> reads it: \<open>None\<close>
  for a sender without tab or URL. \<open>auth_init\<close> is \<^verbatim>\<open>this.auth.init()\<close>: it
  resolves with the stored session, in the model the agent built on it, or with
  \<^verbatim>\<open>undefined\<close>, which cannot be destructured. Its own traffic is not part of the
  run.
\<close>

record sender =
  tab_url :: "URL option"

record MessageHandler =
  auth_init :: "agent option promise"

definition init_session :: "agent option \<Rightarrow> js_error + agent" where
  "init_session r =
     (case r of
        None \<Rightarrow> Inl (TypeError
          ''Cannot destructure property 'session' of '(intermediate value)' as it is undefined.'')
      | Some a \<Rightarrow> Inr a)"

text \<open>The body of the \<^verbatim>\<open>try\<close> of \<^verbatim>\<open>handleCreateList\<close>.\<close>

definition try_handleCreateList ::
  "platform \<Rightarrow> MessageHandler \<Rightarrow> sender \<Rightarrow> response run" where
  "try_handleCreateList pf this sndr =
     await (auth_init this, []) (\<lambda>r.
     await (settle (init_session r), []) (\<lambda>a.
     await (settle (URL_new (tab_url sndr)), []) (\<lambda>u.
     await (createListFromStarterPack pf (ListConverter_new a) u) (\<lambda>newList.
     (Fulfilled (createResponse True (Some newList) None), [])))))"

text \<open>\<^verbatim>\<open>handleCreateList\<close>: the test of the URL stands before the \<^verbatim>\<open>try\<close>.\<close>

definition handleCreateList ::
  "platform \<Rightarrow> MessageHandler \<Rightarrow> sender \<Rightarrow> response run" where
  "handleCreateList pf this sndr =
     (case isStarterPackUrl (tab_url sndr) of
        Inl e \<Rightarrow> (Rejected e, [])
      | Inr b \<Rightarrow>
          if \<not> b then (Fulfilled (createResponse False None (Some ''Invalid URL'')), [])
          else (case try_handleCreateList pf this sndr of
                  (Rejected e, l) \<Rightarrow> (Fulfilled (createResponse False None (Some (message e))), l)
                | (Fulfilled r, l) \<Rightarrow> (Fulfilled r, l)
                | (Pending, l) \<Rightarrow> (Pending, l)))"

section \<open>scripts/background.js: the listener of page navigation\<close>

text \<open>
  \<^verbatim>\<open>getShortCode\<close> and \<^verbatim>\<open>getAtUri\<close> have the text of the converter's. The
  redirect is fetched without signal; a rejection is logged and thrown again.
\<close>

definition bg_fetchStarterPackRedirect :: "platform \<Rightarrow> string \<Rightarrow> redirect_json run" where
  "bg_fetchStarterPackRedirect pf code =
     ((case fetch (go_bsky_app pf (''https://go.bsky.app/'' @ code)) None of
         Rejected e \<Rightarrow> Rejected e
       | Pending \<Rightarrow> Pending
       | Fulfilled response \<Rightarrow>
           if \<not> ok response
           then Rejected (Error (''HTTP error! status: '' @ string_of_nat (status response)))
           else json response),
      [Fetch (''https://go.bsky.app/'' @ code) None])"

text \<open>
  \<^verbatim>\<open>getStarterPack\<close> and \<^verbatim>\<open>getList\<close> abort the fetch after 5000
  milliseconds, do not look at the status and read the body.
\<close>

definition read_json :: "'b http_response promise \<Rightarrow> 'b promise" where
  "read_json p =
     (case p of
        Rejected e \<Rightarrow> Rejected e
      | Pending \<Rightarrow> Pending
      | Fulfilled response \<Rightarrow> json response)"

definition bg_getStarterPack :: "platform \<Rightarrow> string \<Rightarrow> starterPackView option run" where
  "bg_getStarterPack pf atUri =
     ((case read_json (fetch (public_api_getStarterPack pf
            (''https://public.api.bsky.app/xrpc/app.bsky.graph.getStarterPack?starterPack='' @ atUri))
            (Some 5000)) of
         Rejected e \<Rightarrow> Rejected e
       | Pending \<Rightarrow> Pending
       | Fulfilled Null \<Rightarrow>
           Rejected (TypeError ''Cannot read properties of null (reading 'starterPack')'')
       | Fulfilled (Body sp) \<Rightarrow> Fulfilled sp),
      [Fetch (''https://public.api.bsky.app/xrpc/app.bsky.graph.getStarterPack?starterPack='' @ atUri)
         (Some 5000)])"

definition bg_getList :: "platform \<Rightarrow> string \<Rightarrow> unit json run" where
  "bg_getList pf atUri =
     (read_json (fetch (public_api_getList pf
         (''https://public.api.bsky.app/xrpc/app.bsky.graph.getList?list='' @ atUri)) (Some 5000)),
      [Fetch (''https://public.api.bsky.app/xrpc/app.bsky.graph.getList?list='' @ atUri)
         (Some 5000)])"

definition bg_list_uri :: "starterPackView option \<Rightarrow> js_error + string" where
  "bg_list_uri starterPack =
     (case starterPack of
        None \<Rightarrow> Inl (TypeError ''Cannot read properties of undefined (reading 'list')'')
      | Some sp \<Rightarrow> list_uri_of sp)"

definition destructure_list_items :: "unit json \<Rightarrow> js_error + unit" where
  "destructure_list_items d =
     (case d of
        Null \<Rightarrow> Inl (TypeError
          ''Cannot destructure property 'list' of '(intermediate value)' as it is null.'')
      | Body x \<Rightarrow> Inr ())"

definition bg_atUri :: "platform \<Rightarrow> URL \<Rightarrow> string run" where
  "bg_atUri pf u =
     (if startsWith (pathname u) ''/starter-pack-short/''
      then (case getShortCode u of
              Inl e \<Rightarrow> (Rejected e, [])
            | Inr shortCode \<Rightarrow>
                await (bg_fetchStarterPackRedirect pf shortCode)
                  (\<lambda>starterPackRedirect.
                     (case redirect_url starterPackRedirect of
                        Inl e \<Rightarrow> (Rejected e, [])
                      | Inr x \<Rightarrow> (settle (getAtUri x), []))))
      else (settle (getAtUri (Some u)), []))"

definition listener :: "platform \<Rightarrow> URL option \<Rightarrow> unit run" where
  "listener pf details_url =
     (case isStarterPackUrl details_url of
        Inl e \<Rightarrow> (Rejected e, [])
      | Inr b \<Rightarrow>
          if \<not> b then (Fulfilled (), [])
          else
            await (settle (URL_new details_url), []) (\<lambda>u.
            await (bg_atUri pf u) (\<lambda>atUri.
            await (bg_getStarterPack pf atUri) (\<lambda>starterPack.
            await (settle (bg_list_uri starterPack), []) (\<lambda>a.
            await (bg_getList pf a) (\<lambda>d.
            (settle (destructure_list_items d), [])))))))"

section \<open>Concrete platforms and agents\<close>

text \<open>
  A network on which nothing ever answers, and one on which the short link
  \<^verbatim>\<open>xyz789\<close> answers after 120 milliseconds with the page of carol's starter pack.
\<close>

definition silent :: "'b fetch_reply" where
  "silent = \<lparr>settles_after = None, settled = Inl (TypeError ''Failed to fetch'')\<rparr>"

definition carol_page :: URL where
  "carol_page = \<lparr>hostname = ''bsky.app'', pathname = ''/starter-pack/carol/k1''\<rparr>"

definition a_platform :: platform where
  "a_platform =
     \<lparr>go_bsky_app = (\<lambda>u. if u = ''https://go.bsky.app/xyz789''
         then \<lparr>settles_after = Some 120,
               settled = Inr (Response True 200 (Fulfilled (Body (Some carol_page))))\<rparr>
         else silent),
      public_api_getStarterPack = (\<lambda>u. silent),
      public_api_getList = (\<lambda>u. silent),
      Math_random36 = ''0.4fzyo82mvyr'',
      Date_toISOString = (\<lambda>k. ''2024-11-20T10:00:00.000Z'')\<rparr>"

text \<open>
  An agent whose service answers every call: every starter pack has the list of bob,
  the list is Friends with two members, every record is created.
\<close>

definition friends :: getList_output where
  "friends =
     \<lparr>gl_list = \<lparr>lv_name = ''Friends'', lv_description = Some ''d''\<rparr>,
      gl_items = [\<lparr>subject_did = ''did:1''\<rparr>, \<lparr>subject_did = ''did:2''\<rparr>]\<rparr>"

definition created :: createRecord_output where
  "created = \<lparr>uri = ''at://did:me/app.bsky.graph.list/new'', cid = ''bafy''\<rparr>"

definition an_agent :: agent where
  "an_agent =
     \<lparr>assertDid = ''did:me'',
      getStarterPack_xrpc = (\<lambda>a. Fulfilled \<lparr>sp_list_uri = Some ''at://bob/app.bsky.graph.list/xyz''\<rparr>),
      getList_xrpc = (\<lambda>a. Fulfilled friends),
      createRecord_xrpc = (\<lambda>k i. Fulfilled created)\<rparr>"

definition bob_page :: URL where
  "bob_page = \<lparr>hostname = ''bsky.app'', pathname = ''/starter-pack/bob/xyz''\<rparr>"

definition short_page :: URL where
  "short_page = \<lparr>hostname = ''bsky.app'', pathname = ''/starter-pack-short/xyz789''\<rparr>"

text \<open>Variants of the agent: one call of the service fails or never answers.\<close>

definition list_create_down :: agent where
  "list_create_down = an_agent\<lparr>createRecord_xrpc := (\<lambda>k i. Rejected (Error ''Unauthorized''))\<rparr>"

definition one_member_down :: agent where
  "one_member_down =
     an_agent\<lparr>createRecord_xrpc :=
       (\<lambda>k i. if k = 2 then Rejected (Error ''Rate limited'') else Fulfilled created)\<rparr>"

definition pack_down :: agent where
  "pack_down = an_agent\<lparr>getStarterPack_xrpc := (\<lambda>a. Rejected (Error ''fetch failed''))\<rparr>"

definition list_down :: agent where
  "list_down = an_agent\<lparr>getList_xrpc := (\<lambda>a. Rejected (Error ''fetch failed''))\<rparr>"

definition pack_silent :: agent where
  "pack_silent = an_agent\<lparr>getStarterPack_xrpc := (\<lambda>a. Pending)\<rparr>"

definition empty_list :: agent where
  "empty_list = an_agent\<lparr>getList_xrpc := (\<lambda>a. Fulfilled (friends\<lparr>gl_items := []\<rparr>))\<rparr>"

definition other_page :: URL where
  "other_page = \<lparr>hostname = ''example.com'', pathname = ''/starter-pack/alice/abc123''\<rparr>"

definition bare_page :: URL where
  "bare_page = \<lparr>hostname = ''bsky.app'', pathname = ''/starter-pack/''\<rparr>"

definition a_handler :: MessageHandler where
  "a_handler = \<lparr>auth_init = Fulfilled (Some an_agent)\<rparr>"

definition foreign_page :: URL where
  "foreign_page = \<lparr>hostname = ''example.com'', pathname = ''/''\<rparr>"

definition short_bare_page :: URL where
  "short_bare_page = \<lparr>hostname = ''bsky.app'', pathname = ''/starter-pack-short/''\<rparr>"

definition unanswered_short_page :: URL where
  "unanswered_short_page = \<lparr>hostname = ''bsky.app'', pathname = ''/starter-pack-short/abc123''\<rparr>"

section \<open>Path segments\<close>

lemma js_split_no_sep: "c \<notin> set s \<Longrightarrow> js_split c s = [s]"
  by (induction s) auto

lemma js_split_sep: "c \<notin> set s \<Longrightarrow> js_split c (s @ c # t) = s # js_split c t"
  by (induction s) auto

lemma path_segments_Cons:
  "CHR ''/'' \<notin> set s \<Longrightarrow>
   path_segments (s @ CHR ''/'' # t) = (if s = [] then path_segments t else s # path_segments t)"
  by (simp add: path_segments_def js_split_sep)

lemma path_segments_last:
  "CHR ''/'' \<notin> set s \<Longrightarrow> path_segments s = (if s = [] then [] else [s])"
  by (simp add: path_segments_def js_split_no_sep)

lemma path_segments_three:
  assumes "CHR ''/'' \<notin> set a" "CHR ''/'' \<notin> set b" "CHR ''/'' \<notin> set c"
      and "a \<noteq> []" "b \<noteq> []" "c \<noteq> []"
  shows "path_segments (CHR ''/'' # a @ CHR ''/'' # b @ CHR ''/'' # c) = [a, b, c]"
proof -
  have "path_segments ([] @ CHR ''/'' # a @ CHR ''/'' # b @ CHR ''/'' # c)
        = path_segments (a @ CHR ''/'' # b @ CHR ''/'' # c)"
    by (subst path_segments_Cons) simp_all
  also have "\<dots> = a # path_segments (b @ CHR ''/'' # c)"
    using assms by (simp add: path_segments_Cons)
  also have "\<dots> = [a, b, c]"
    using assms by (simp add: path_segments_Cons path_segments_last)
  finally show ?thesis by simp
qed

section \<open>Runs of the converter\<close>

lemma await_Fulfilled: "await (Fulfilled x, l) f = (fst (f x), l @ snd (f x))"
  by (simp add: await_def split: prod.splits)

lemma await_Rejected: "await (Rejected e, l) f = (Rejected e, l)"
  by (simp add: await_def)

lemma await_Pending: "await (Pending, l) f = (Pending, l)"
  by (simp add: await_def)

lemmas await_simps = await_Fulfilled await_Rejected await_Pending

lemma HttpClient_fetch_log:
  "snd (HttpClient_fetch c x r) = [Fetch x (Some (timeout c))]"
  by (simp add: HttpClient_fetch_def)

lemma getStarterPackUri_log:
  "snd (getStarterPackUri pf this u) =
     (if startsWith (pathname u) ''/starter-pack-short/''
      then (case getShortCode u of
              Inl e \<Rightarrow> []
            | Inr code \<Rightarrow> [Fetch (''https://go.bsky.app/'' @ code) (Some (timeout (httpClient this)))])
      else [])"
  by (auto simp: getStarterPackUri_def fetchStarterPackRedirect_def await_def HttpClient_fetch_def
      split: sum.splits prod.splits promise.splits)

lemma getStarterPackUri_no_create:
  assumes "q \<in> set (snd (getStarterPackUri pf this u))"
  shows "\<exists>x t. q = Fetch x t"
proof (cases "startsWith (pathname u) ''/starter-pack-short/''")
  case True
  then show ?thesis
    using assms by (cases "getShortCode u") (simp_all add: getStarterPackUri_log)
next
  case False
  then show ?thesis
    using assms by (simp add: getStarterPackUri_log)
qed

lemma try_createList_resolved:
  assumes "getStarterPackUri pf this u = (Fulfilled atUri, l0)"
      and "getStarterPack_xrpc (lc_agent this) atUri = Fulfilled sp"
      and "sp_list_uri sp = Some a"
      and "getList_xrpc (lc_agent this) a = Fulfilled out"
      and "li = list_input pf this (lv_name (gl_list out)) (lv_description (gl_list out))"
  shows "try_createList pf this u =
     (case createRecord_xrpc (lc_agent this) 0 li of
        Fulfilled newList \<Rightarrow>
          ((case fst (addUsersToList pf this (uri newList) (gl_items out)) of
              Fulfilled x \<Rightarrow> Fulfilled newList
            | Rejected e \<Rightarrow> Rejected e
            | Pending \<Rightarrow> Pending),
           l0 @ [GetStarterPack atUri, GetList a, CreateRecord li] @
             snd (addUsersToList pf this (uri newList) (gl_items out)))
      | Rejected e \<Rightarrow> (Rejected e, l0 @ [GetStarterPack atUri, GetList a, CreateRecord li])
      | Pending \<Rightarrow> (Pending, l0 @ [GetStarterPack atUri, GetList a, CreateRecord li]))"
  using assms
  by (simp add: try_createList_def await_def getStarterPack_def getList_def list_uri_of_def
      createBskyList_def split: prod.splits promise.splits)

lemma addUsersToList_log:
  "snd (addUsersToList pf this listUri users) =
     map (\<lambda>ku. CreateRecord (listitem_input pf this listUri ku)) (enumerate 1 users)"
  by (simp add: addUsersToList_def)

lemma find_is_Rejected_Some:
  assumes "find is_Rejected ps = Some p"
  shows "\<exists>e. p = Rejected e \<and> Rejected e \<in> set ps"
proof -
  from assms have "is_Rejected p" "p \<in> set ps"
    by (auto simp: find_Some_iff)
  then show ?thesis by (cases p) simp_all
qed

lemma find_is_Rejected_None:
  "find is_Rejected ps = None \<longleftrightarrow> \<not> list_ex is_Rejected ps"
  by (auto simp: find_None_iff list_ex_iff)

lemma Rejected_ex_Rejected: "Rejected e \<in> set ps \<Longrightarrow> list_ex is_Rejected ps"
  by (induction ps) auto

lemma Promise_all_cases:
  "Promise_all ps =
     (if list_ex is_Rejected ps
      then (case find is_Rejected ps of Some (Rejected e) \<Rightarrow> Rejected e | _ \<Rightarrow> Pending)
      else if list_all is_Fulfilled ps
      then Fulfilled (concat (map (\<lambda>p. case p of Fulfilled x \<Rightarrow> [x] | _ \<Rightarrow> []) ps))
      else Pending)"
proof (cases "find is_Rejected ps")
  case None
  then have "\<not> list_ex is_Rejected ps"
    by (simp add: find_is_Rejected_None)
  then show ?thesis
    using None by (simp add: Promise_all_def)
next
  case (Some p)
  then obtain e where "p = Rejected e" "Rejected e \<in> set ps"
    using find_is_Rejected_Some by blast
  then show ?thesis
    using Some by (simp add: Promise_all_def Rejected_ex_Rejected)
qed

lemma Promise_all_Rejected:
  assumes "list_ex is_Rejected ps"
  shows "is_Rejected (Promise_all ps)"
proof -
  from assms obtain p where "find is_Rejected ps = Some p"
    by (cases "find is_Rejected ps") (simp_all add: find_is_Rejected_None)
  moreover then obtain e where "p = Rejected e"
    using find_is_Rejected_Some by blast
  ultimately show ?thesis
    by (simp add: Promise_all_def)
qed

lemma addUsersToList_result:
  "fst (addUsersToList pf this listUri users) =
     (if list_ex is_Rejected (addUserPromises pf this listUri users)
      then Rejected (ReferenceError ''listUri is not defined'')
      else if list_all is_Fulfilled (addUserPromises pf this listUri users)
      then Fulfilled ()
      else Pending)"
proof (cases "list_ex is_Rejected (addUserPromises pf this listUri users)")
  case True
  then have "is_Rejected (Promise_all (addUserPromises pf this listUri users))"
    by (rule Promise_all_Rejected)
  then show ?thesis
    using True
    by (cases "Promise_all (addUserPromises pf this listUri users)")
       (simp_all add: addUsersToList_def)
next
  case False
  then show ?thesis
    by (simp add: addUsersToList_def Promise_all_cases)
qed

lemma snd_await:
  "snd (await m f) = snd m @ (case fst m of Fulfilled x \<Rightarrow> snd (f x) | Rejected e \<Rightarrow> [] | Pending \<Rightarrow> [])"
  by (cases m; cases "fst m") (auto simp: await_def split: prod.splits)

lemma createListFromStarterPack_log:
  "snd (createListFromStarterPack pf this u) = snd (try_createList pf this u)"
  by (simp add: createListFromStarterPack_def split: prod.splits promise.splits)

lemma createListFromStarterPack_result:
  "fst (createListFromStarterPack pf this u) =
     (case fst (try_createList pf this u) of
        Rejected e \<Rightarrow> Rejected (Error (''Failed to create list: '' @ message e))
      | Fulfilled newList \<Rightarrow> Fulfilled newList
      | Pending \<Rightarrow> Pending)"
  by (simp add: createListFromStarterPack_def split: prod.splits promise.splits)

text \<open>Either no record is created, or the resolver went through.\<close>

lemma CreateRecord_in_log:
  assumes "CreateRecord i \<in> set (snd (try_createList pf this u))"
  shows "\<exists>atUri l0 sp a out.
           getStarterPackUri pf this u = (Fulfilled atUri, l0) \<and>
           getStarterPack_xrpc (lc_agent this) atUri = Fulfilled sp \<and>
           sp_list_uri sp = Some a \<and>
           getList_xrpc (lc_agent this) a = Fulfilled out"
proof (cases "getStarterPackUri pf this u")
  case (Pair p l0)
  have nofetch: "CreateRecord i \<notin> set l0"
    using getStarterPackUri_no_create[of "CreateRecord i" pf this u] Pair by auto
  show ?thesis
  proof (cases p)
    case (Fulfilled atUri)
    show ?thesis
    proof (cases "getStarterPack_xrpc (lc_agent this) atUri")
      case sp: (Fulfilled sp)
      show ?thesis
      proof (cases "sp_list_uri sp")
        case None
        then show ?thesis
          using assms Pair Fulfilled sp nofetch
          by (simp add: try_createList_def snd_await getStarterPack_def list_uri_of_def)
      next
        case (Some a)
        show ?thesis
        proof (cases "getList_xrpc (lc_agent this) a")
          case out: (Fulfilled out)
          then show ?thesis using Pair Fulfilled sp Some by blast
        next
          case (Rejected e)
          then show ?thesis
            using assms Pair Fulfilled sp Some nofetch
            by (simp add: try_createList_def snd_await getStarterPack_def list_uri_of_def
                getList_def)
        next
          case Pending
          then show ?thesis
            using assms Pair Fulfilled sp Some nofetch
            by (simp add: try_createList_def snd_await getStarterPack_def list_uri_of_def
                getList_def)
        qed
      qed
    next
      case (Rejected e)
      then show ?thesis
        using assms Pair Fulfilled nofetch
        by (simp add: try_createList_def snd_await getStarterPack_def)
    next
      case Pending
      then show ?thesis
        using assms Pair Fulfilled nofetch
        by (simp add: try_createList_def snd_await getStarterPack_def)
    qed
  next
    case (Rejected e)
    then show ?thesis
      using assms Pair nofetch by (simp add: try_createList_def snd_await)
  next
    case Pending
    then show ?thesis
      using assms Pair nofetch by (simp add: try_createList_def snd_await)
  qed
qed

lemma list_input_collection [simp]:
  "collection (list_input pf this nm descr) = ''app.bsky.graph.list''"
  by (simp add: list_input_def)

lemma listitem_input_collection [simp]:
  "collection (listitem_input pf this listUri ku) = ''app.bsky.graph.listitem''"
  by (simp add: listitem_input_def)

lemma no_member_create_before:
  assumes "getStarterPackUri pf this u = (Fulfilled atUri, l0)"
  shows "filter is_member_create
           (l0 @ [GetStarterPack atUri, GetList a, CreateRecord (list_input pf this nm descr)]) = []"
proof -
  have "\<forall>q\<in>set l0. \<not> is_member_create q"
    using getStarterPackUri_no_create[of _ pf this u] assms by fastforce
  then show ?thesis
    by (simp add: filter_empty_conv)
qed

lemma no_list_create_before:
  assumes "getStarterPackUri pf this u = (Fulfilled atUri, l0)"
  shows "CreateRecord i \<notin> set l0"
  using getStarterPackUri_no_create[of "CreateRecord i" pf this u] assms by auto

lemma addUsersToList_no_redirect:
  "filter is_redirect (snd (addUsersToList pf this listUri users)) = []"
  by (simp add: addUsersToList_def filter_empty_conv)

lemma try_createList_redirects:
  "filter is_redirect (snd (try_createList pf this u)) =
   filter is_redirect (snd (getStarterPackUri pf this u))"
  by (simp add: try_createList_def snd_await getStarterPack_def getList_def createBskyList_def
      addUsersToList_no_redirect split: promise.splits)

lemmas run_defs = createListFromStarterPack_def try_createList_def await_def getStarterPackUri_def
  getStarterPack_def getList_def createBskyList_def addUsersToList_def addUserPromises_def
  Promise_all_def list_input_def listitem_input_def list_uri_of_def getAtUri_def URL_new_def
  getShortCode_def path_segments_def at_index_def template_def startsWith_def
  fetchStarterPackRedirect_def HttpClient_fetch_def HttpClient_new_def ListConverter_new_def
  fetch_def redirect_url_def enumerate_eq_zip

lemma addUserPromises_Nil: "addUserPromises pf this listUri [] = []"
  by (simp add: addUserPromises_def)

lemma all_Fulfilled_none_Rejected:
  "list_all is_Fulfilled ps \<Longrightarrow> \<not> list_ex is_Rejected ps"
proof (induction ps)
  case Nil
  then show ?case by simp
next
  case (Cons p ps)
  then show ?case by (cases p) simp_all
qed

lemma try_createList_unresolved:
  "getStarterPackUri pf this u = (Rejected e, l0) \<Longrightarrow> try_createList pf this u = (Rejected e, l0)"
  by (simp add: try_createList_def await_Rejected)

lemma try_createList_pack_rejected:
  assumes "getStarterPackUri pf this u = (Fulfilled atUri, l0)"
      and "getStarterPack_xrpc (lc_agent this) atUri = Rejected e"
  shows "try_createList pf this u = (Rejected e, l0 @ [GetStarterPack atUri])"
  using assms by (simp add: try_createList_def await_def getStarterPack_def)

lemma try_createList_list_rejected:
  assumes "getStarterPackUri pf this u = (Fulfilled atUri, l0)"
      and "getStarterPack_xrpc (lc_agent this) atUri = Fulfilled sp"
      and "sp_list_uri sp = Some a"
      and "getList_xrpc (lc_agent this) a = Rejected e"
  shows "try_createList pf this u = (Rejected e, l0 @ [GetStarterPack atUri, GetList a])"
  using assms
  by (simp add: try_createList_def await_def getStarterPack_def list_uri_of_def getList_def)

lemma wrap_Rejected:
  "try_createList pf this u = (Rejected e, l) \<Longrightarrow>
   createListFromStarterPack pf this u
     = (Rejected (Error (''Failed to create list: '' @ message e)), l)"
  by (simp add: createListFromStarterPack_def)

lemmas agent_defs = an_agent_def friends_def created_def a_platform_def bob_page_def
  carol_page_def silent_def

lemmas handler_defs = handleCreateList_def try_handleCreateList_def isStarterPackUrl_def
  createResponse_def init_session_def

section \<open>Failure of a member\<close>

text \<open>
  C1, as the code has it. In every run in which the list was created, one request per
  member is issued, in the order of the members and whatever the others do. The run is
  fulfilled with the record of the list when all of them are fulfilled, and rejected as
  soon as one of them is rejected.
\<close>

theorem member_failure_rejects_the_run:
  assumes "getStarterPackUri pf this u = (Fulfilled atUri, l0)"
      and "getStarterPack_xrpc (lc_agent this) atUri = Fulfilled sp"
      and "sp_list_uri sp = Some a"
      and "getList_xrpc (lc_agent this) a = Fulfilled out"
      and "createRecord_xrpc (lc_agent this) 0
             (list_input pf this (lv_name (gl_list out)) (lv_description (gl_list out)))
           = Fulfilled newList"
  shows "snd (createListFromStarterPack pf this u)
           = l0 @ [GetStarterPack atUri, GetList a,
                   CreateRecord (list_input pf this (lv_name (gl_list out))
                     (lv_description (gl_list out)))] @
             map (\<lambda>ku. CreateRecord (listitem_input pf this (uri newList) ku))
               (enumerate 1 (gl_items out)) \<and>
         length (filter is_member_create (snd (createListFromStarterPack pf this u)))
           = length (gl_items out) \<and>
         (list_all is_Fulfilled (addUserPromises pf this (uri newList) (gl_items out)) \<longrightarrow>
            fst (createListFromStarterPack pf this u) = Fulfilled newList) \<and>
         (list_ex is_Rejected (addUserPromises pf this (uri newList) (gl_items out)) \<longrightarrow>
            is_Rejected (fst (createListFromStarterPack pf this u)))"
proof -
  let ?li = "list_input pf this (lv_name (gl_list out)) (lv_description (gl_list out))"
  let ?ps = "addUserPromises pf this (uri newList) (gl_items out)"
  let ?ms = "map (\<lambda>ku. CreateRecord (listitem_input pf this (uri newList) ku))
               (enumerate 1 (gl_items out))"
  have t: "try_createList pf this u
          = ((case fst (addUsersToList pf this (uri newList) (gl_items out)) of
                Fulfilled x \<Rightarrow> Fulfilled newList
              | Rejected e \<Rightarrow> Rejected e
              | Pending \<Rightarrow> Pending),
             l0 @ [GetStarterPack atUri, GetList a, CreateRecord ?li] @ ?ms)"
    using try_createList_resolved[OF assms(1-4) refl] assms(5)
    by (simp add: addUsersToList_log)
  have log: "snd (createListFromStarterPack pf this u)
          = l0 @ [GetStarterPack atUri, GetList a, CreateRecord ?li] @ ?ms"
    using t by (simp add: createListFromStarterPack_log)
  have "filter is_member_create (l0 @ [GetStarterPack atUri, GetList a, CreateRecord ?li] @ ?ms)
          = ?ms"
    using no_member_create_before[OF assms(1), of a "lv_name (gl_list out)"
        "lv_description (gl_list out)"]
    by (simp add: filter_empty_conv)
  then have n: "length (filter is_member_create (snd (createListFromStarterPack pf this u)))
          = length (gl_items out)"
    using log by simp
  have ok: "fst (createListFromStarterPack pf this u) = Fulfilled newList"
    if "list_all is_Fulfilled ?ps"
  proof -
    from that have "\<not> list_ex is_Rejected ?ps"
      by (rule all_Fulfilled_none_Rejected)
    with that show ?thesis
      using t by (simp add: createListFromStarterPack_result addUsersToList_result)
  qed
  have bad: "is_Rejected (fst (createListFromStarterPack pf this u))"
    if "list_ex is_Rejected ?ps"
    using that t by (simp add: createListFromStarterPack_result addUsersToList_result)
  from log n ok bad show ?thesis by blast
qed

theorem member_failure_examples:
  "snd (createListFromStarterPack a_platform (ListConverter_new one_member_down) bob_page)
     = [GetStarterPack ''at://bob/app.bsky.graph.list/xyz'',
        GetList ''at://bob/app.bsky.graph.list/xyz'',
        CreateRecord (list_input a_platform (ListConverter_new one_member_down) ''Friends'' (Some ''d'')),
        CreateRecord (listitem_input a_platform (ListConverter_new one_member_down) (uri created)
          (1, \<lparr>subject_did = ''did:1''\<rparr>)),
        CreateRecord (listitem_input a_platform (ListConverter_new one_member_down) (uri created)
          (2, \<lparr>subject_did = ''did:2''\<rparr>))] \<and>
   length (filter is_member_create
     (snd (createListFromStarterPack a_platform (ListConverter_new one_member_down) bob_page))) = 2 \<and>
   is_Rejected (fst (createListFromStarterPack a_platform (ListConverter_new one_member_down) bob_page)) \<and>
   fst (createListFromStarterPack a_platform (ListConverter_new an_agent) bob_page)
     = Fulfilled created"
proof -
  have u: "getStarterPackUri a_platform this bob_page
             = (Fulfilled ''at://bob/app.bsky.graph.list/xyz'', [])" for this
    by (simp add: run_defs bob_page_def)
  have sp: "getStarterPack_xrpc (lc_agent (ListConverter_new one_member_down))
             ''at://bob/app.bsky.graph.list/xyz''
             = Fulfilled \<lparr>sp_list_uri = Some ''at://bob/app.bsky.graph.list/xyz''\<rparr>"
       "getStarterPack_xrpc (lc_agent (ListConverter_new an_agent))
             ''at://bob/app.bsky.graph.list/xyz''
             = Fulfilled \<lparr>sp_list_uri = Some ''at://bob/app.bsky.graph.list/xyz''\<rparr>"
    by (simp_all add: ListConverter_new_def one_member_down_def an_agent_def)
  have l: "sp_list_uri \<lparr>sp_list_uri = Some ''at://bob/app.bsky.graph.list/xyz''\<rparr>
             = Some ''at://bob/app.bsky.graph.list/xyz''"
    by simp
  have gl: "getList_xrpc (lc_agent (ListConverter_new one_member_down))
             ''at://bob/app.bsky.graph.list/xyz'' = Fulfilled friends"
       "getList_xrpc (lc_agent (ListConverter_new an_agent))
             ''at://bob/app.bsky.graph.list/xyz'' = Fulfilled friends"
    by (simp_all add: ListConverter_new_def one_member_down_def an_agent_def)
  have c: "createRecord_xrpc (lc_agent (ListConverter_new one_member_down)) 0
             (list_input a_platform (ListConverter_new one_member_down)
                (lv_name (gl_list friends)) (lv_description (gl_list friends)))
             = Fulfilled created"
       "createRecord_xrpc (lc_agent (ListConverter_new an_agent)) 0
             (list_input a_platform (ListConverter_new an_agent)
                (lv_name (gl_list friends)) (lv_description (gl_list friends)))
             = Fulfilled created"
    by (simp_all add: ListConverter_new_def one_member_down_def an_agent_def)
  have down: "list_ex is_Rejected
     (addUserPromises a_platform (ListConverter_new one_member_down) (uri created) (gl_items friends))"
    by (simp add: addUserPromises_def enumerate_eq_zip ListConverter_new_def one_member_down_def
        friends_def)
  have up: "list_all is_Fulfilled
     (addUserPromises a_platform (ListConverter_new an_agent) (uri created) (gl_items friends))"
    by (simp add: addUserPromises_def enumerate_eq_zip ListConverter_new_def an_agent_def
        friends_def)
  show ?thesis
    using member_failure_rejects_the_run[OF u sp(1) l gl(1) c(1)]
      member_failure_rejects_the_run[OF u sp(2) l gl(2) c(2)] down up
    by (simp add: friends_def enumerate_eq_zip numeral_2_eq_2)
qed

text \<open>
  The claim as the specification states it fails: the list is created, both members are
  requested, the second is refused, and the run is rejected.
\<close>

theorem one_failed_member_rejects:
  "createListFromStarterPack a_platform (ListConverter_new one_member_down) bob_page
     = (Rejected (Error ''Failed to create list: listUri is not defined''),
        [GetStarterPack ''at://bob/app.bsky.graph.list/xyz'',
         GetList ''at://bob/app.bsky.graph.list/xyz'',
         CreateRecord (list_input a_platform (ListConverter_new one_member_down) ''Friends'' (Some ''d'')),
         CreateRecord (listitem_input a_platform (ListConverter_new one_member_down) (uri created)
           (1, \<lparr>subject_did = ''did:1''\<rparr>)),
         CreateRecord (listitem_input a_platform (ListConverter_new one_member_down) (uri created)
           (2, \<lparr>subject_did = ''did:2''\<rparr>))]) \<and>
   createRecord_xrpc one_member_down 0
       (list_input a_platform (ListConverter_new one_member_down) ''Friends'' (Some ''d''))
     = Fulfilled created \<and>
   addUserPromises a_platform (ListConverter_new one_member_down) (uri created) (gl_items friends)
     = [Fulfilled created, Rejected (Error ''Rate limited'')]"
  by (simp add: run_defs agent_defs one_member_down_def)

section \<open>Failure of the list creation\<close>

text \<open>
  C2. In every run in which the call that creates the list was issued and rejected, the
  run is rejected with the message of that rejection, the call is the last request of
  the run, and no request that creates a list item was issued.
\<close>

theorem list_create_failure_aborts:
  assumes "CreateRecord i \<in> set (snd (createListFromStarterPack pf this u))"
      and "is_list_create (CreateRecord i)"
      and "createRecord_xrpc (lc_agent this) 0 i = Rejected e"
  shows "fst (createListFromStarterPack pf this u)
           = Rejected (Error (''Failed to create list: '' @ message e)) \<and>
         filter is_member_create (snd (createListFromStarterPack pf this u)) = [] \<and>
         last (snd (createListFromStarterPack pf this u)) = CreateRecord i"
proof -
  from assms(1) have inlog: "CreateRecord i \<in> set (snd (try_createList pf this u))"
    by (simp add: createListFromStarterPack_log)
  then obtain atUri l0 sp a out where r:
      "getStarterPackUri pf this u = (Fulfilled atUri, l0)"
      "getStarterPack_xrpc (lc_agent this) atUri = Fulfilled sp"
      "sp_list_uri sp = Some a"
      "getList_xrpc (lc_agent this) a = Fulfilled out"
    using CreateRecord_in_log by blast
  define li where "li = list_input pf this (lv_name (gl_list out)) (lv_description (gl_list out))"
  note t = try_createList_resolved[OF r li_def]
  have "i = li"
  proof (cases "createRecord_xrpc (lc_agent this) 0 li")
    case (Fulfilled newList)
    then show ?thesis
      using inlog assms(2) t no_list_create_before[OF r(1), of i]
      by (auto simp: addUsersToList_log)
  next
    case (Rejected x)
    then show ?thesis
      using inlog t no_list_create_before[OF r(1), of i] by auto
  next
    case Pending
    then show ?thesis
      using inlog t no_list_create_before[OF r(1), of i] by auto
  qed
  with assms(3) have "try_createList pf this u
      = (Rejected e, l0 @ [GetStarterPack atUri, GetList a, CreateRecord i])"
    using t by simp
  then show ?thesis
    using no_member_create_before[OF r(1), of a "lv_name (gl_list out)" "lv_description (gl_list out)"]
      \<open>i = li\<close>
    by (simp add: createListFromStarterPack_log createListFromStarterPack_result li_def)
qed

theorem list_create_failure_unauthorized:
  "fst (createListFromStarterPack a_platform (ListConverter_new list_create_down) bob_page)
     = Rejected (Error ''Failed to create list: Unauthorized'') \<and>
   filter is_member_create
     (snd (createListFromStarterPack a_platform (ListConverter_new list_create_down) bob_page)) = [] \<and>
   last (snd (createListFromStarterPack a_platform (ListConverter_new list_create_down) bob_page))
     = CreateRecord (list_input a_platform (ListConverter_new list_create_down) ''Friends'' (Some ''d''))"
proof -
  let ?i = "list_input a_platform (ListConverter_new list_create_down) ''Friends'' (Some ''d'')"
  have 1: "CreateRecord ?i \<in> set (snd (createListFromStarterPack a_platform
             (ListConverter_new list_create_down) bob_page))"
    by (simp add: run_defs a_platform_def list_create_down_def an_agent_def bob_page_def
        friends_def)
  have 2: "is_list_create (CreateRecord ?i)"
    by simp
  have 3: "createRecord_xrpc (lc_agent (ListConverter_new list_create_down)) 0 ?i
             = Rejected (Error ''Unauthorized'')"
    by (simp add: ListConverter_new_def list_create_down_def)
  show ?thesis
    using list_create_failure_aborts[OF 1 2 3] by simp
qed

section \<open>Failure of the resolution\<close>

text \<open>
  C3, as the code has it. Whatever rejects a run, the run is rejected with a plain
  \<^verbatim>\<open>Error\<close> whose message is \<^verbatim>\<open>Failed to create list: \<close> followed by a
  message; for a failure of the derivation of the identifier (the redirect included),
  of the fetch of the pack and of the fetch of the list, by the message of that
  failure, after the requests issued so far.
\<close>

theorem resolution_failure_is_plain_error:
  "(\<forall>x. fst (createListFromStarterPack pf this u) = Rejected x \<longrightarrow>
        (\<exists>m. x = Error (''Failed to create list: '' @ m))) \<and>
   (\<forall>e l0. getStarterPackUri pf this u = (Rejected e, l0) \<longrightarrow>
        createListFromStarterPack pf this u
          = (Rejected (Error (''Failed to create list: '' @ message e)), l0)) \<and>
   (\<forall>atUri l0 e. getStarterPackUri pf this u = (Fulfilled atUri, l0) \<longrightarrow>
        getStarterPack_xrpc (lc_agent this) atUri = Rejected e \<longrightarrow>
        createListFromStarterPack pf this u
          = (Rejected (Error (''Failed to create list: '' @ message e)),
             l0 @ [GetStarterPack atUri])) \<and>
   (\<forall>atUri l0 sp a e. getStarterPackUri pf this u = (Fulfilled atUri, l0) \<longrightarrow>
        getStarterPack_xrpc (lc_agent this) atUri = Fulfilled sp \<longrightarrow>
        sp_list_uri sp = Some a \<longrightarrow>
        getList_xrpc (lc_agent this) a = Rejected e \<longrightarrow>
        createListFromStarterPack pf this u
          = (Rejected (Error (''Failed to create list: '' @ message e)),
             l0 @ [GetStarterPack atUri, GetList a]))"
proof (intro conjI allI impI)
  fix x
  assume "fst (createListFromStarterPack pf this u) = Rejected x"
  then show "\<exists>m. x = Error (''Failed to create list: '' @ m)"
    by (cases "fst (try_createList pf this u)")
       (auto simp: createListFromStarterPack_result)
next
  fix e l0
  assume "getStarterPackUri pf this u = (Rejected e, l0)"
  then show "createListFromStarterPack pf this u
          = (Rejected (Error (''Failed to create list: '' @ message e)), l0)"
    by (intro wrap_Rejected try_createList_unresolved)
next
  fix atUri l0 e
  assume "getStarterPackUri pf this u = (Fulfilled atUri, l0)"
     and "getStarterPack_xrpc (lc_agent this) atUri = Rejected e"
  then show "createListFromStarterPack pf this u
          = (Rejected (Error (''Failed to create list: '' @ message e)),
             l0 @ [GetStarterPack atUri])"
    by (intro wrap_Rejected try_createList_pack_rejected)
next
  fix atUri l0 sp a e
  assume "getStarterPackUri pf this u = (Fulfilled atUri, l0)"
     and "getStarterPack_xrpc (lc_agent this) atUri = Fulfilled sp"
     and "sp_list_uri sp = Some a"
     and "getList_xrpc (lc_agent this) a = Rejected e"
  then show "createListFromStarterPack pf this u
          = (Rejected (Error (''Failed to create list: '' @ message e)),
             l0 @ [GetStarterPack atUri, GetList a])"
    by (intro wrap_Rejected try_createList_list_rejected)
qed

theorem resolution_failure_examples:
  "createListFromStarterPack a_platform (ListConverter_new an_agent) short_bare_page
     = (Rejected (Error ''Failed to create list: Invalid URL path structure''), []) \<and>
   createListFromStarterPack a_platform (ListConverter_new pack_down) bob_page
     = (Rejected (Error ''Failed to create list: fetch failed''),
        [GetStarterPack ''at://bob/app.bsky.graph.list/xyz'']) \<and>
   createListFromStarterPack a_platform (ListConverter_new list_down) bob_page
     = (Rejected (Error ''Failed to create list: fetch failed''),
        [GetStarterPack ''at://bob/app.bsky.graph.list/xyz'',
         GetList ''at://bob/app.bsky.graph.list/xyz''])"
proof -
  have u: "getStarterPackUri a_platform this bob_page
             = (Fulfilled ''at://bob/app.bsky.graph.list/xyz'', [])" for this
    by (simp add: run_defs bob_page_def)
  have 1: "getStarterPackUri a_platform (ListConverter_new an_agent) short_bare_page
             = (Rejected (Error ''Invalid URL path structure''), [])"
    by (simp add: run_defs short_bare_page_def)
  have 2: "getStarterPack_xrpc (lc_agent (ListConverter_new pack_down))
             ''at://bob/app.bsky.graph.list/xyz'' = Rejected (Error ''fetch failed'')"
    by (simp add: ListConverter_new_def pack_down_def)
  have 3: "getStarterPack_xrpc (lc_agent (ListConverter_new list_down))
             ''at://bob/app.bsky.graph.list/xyz''
             = Fulfilled \<lparr>sp_list_uri = Some ''at://bob/app.bsky.graph.list/xyz''\<rparr>"
    by (simp add: ListConverter_new_def list_down_def an_agent_def)
  have 4: "getList_xrpc (lc_agent (ListConverter_new list_down))
             ''at://bob/app.bsky.graph.list/xyz'' = Rejected (Error ''fetch failed'')"
    by (simp add: ListConverter_new_def list_down_def)
  show ?thesis
    using resolution_failure_is_plain_error[of a_platform "ListConverter_new an_agent"
        short_bare_page]
      resolution_failure_is_plain_error[of a_platform "ListConverter_new pack_down" bob_page]
      resolution_failure_is_plain_error[of a_platform "ListConverter_new list_down" bob_page]
      u 1 2 3 4
    by simp
qed

text \<open>
  The claim as the specification states it fails: a run that fails in the fetch of the
  pack and a run that fails in the fetch of the list are rejected with the same error.
\<close>

theorem failing_stage_not_distinguishable:
  "fst (createListFromStarterPack a_platform (ListConverter_new pack_down) bob_page)
     = Rejected (Error ''Failed to create list: fetch failed'') \<and>
   snd (createListFromStarterPack a_platform (ListConverter_new pack_down) bob_page)
     = [GetStarterPack ''at://bob/app.bsky.graph.list/xyz''] \<and>
   fst (createListFromStarterPack a_platform (ListConverter_new list_down) bob_page)
     = Rejected (Error ''Failed to create list: fetch failed'') \<and>
   snd (createListFromStarterPack a_platform (ListConverter_new list_down) bob_page)
     = [GetStarterPack ''at://bob/app.bsky.graph.list/xyz'',
        GetList ''at://bob/app.bsky.graph.list/xyz'']"
  by (simp add: run_defs agent_defs pack_down_def list_down_def)

section \<open>Time limits\<close>

text \<open>
  The request to the redirector is aborted when it has not settled after the time limit
  of the client, and the run is rejected.
\<close>

lemma redirect_is_aborted:
  assumes "startsWith (pathname u) ''/starter-pack-short/''"
      and "getShortCode u = Inr code"
      and "\<forall>d. settles_after (go_bsky_app pf (''https://go.bsky.app/'' @ code)) = Some d
             \<longrightarrow> timeout (httpClient this) \<le> d"
  shows "createListFromStarterPack pf this u
           = (Rejected (Error
                ''Failed to create list: Network request failed: signal is aborted without reason''),
              [Fetch (''https://go.bsky.app/'' @ code) (Some (timeout (httpClient this)))])"
proof -
  have "fetch (go_bsky_app pf (''https://go.bsky.app/'' @ code)) (Some (timeout (httpClient this)))
          = Rejected abort_error"
    using assms(3) by (auto simp: fetch_def split: option.splits)
  then have "getStarterPackUri pf this u
          = (Rejected (Error ''Network request failed: signal is aborted without reason''),
             [Fetch (''https://go.bsky.app/'' @ code) (Some (timeout (httpClient this)))])"
    using assms(1,2)
    by (simp add: getStarterPackUri_def fetchStarterPackRedirect_def HttpClient_fetch_def
        await_Rejected abort_error_def)
  then show ?thesis
    by (simp add: createListFromStarterPack_def try_createList_def await_Rejected)
qed

text \<open>
  C4 at an agent whose \<^verbatim>\<open>getStarterPack\<close> never answers: the run issues the call and
  stays pending, while a redirector that never answers is aborted after 5000
  milliseconds.
\<close>

theorem agent_call_without_timer_blocks:
  "createListFromStarterPack a_platform (ListConverter_new pack_silent) bob_page
     = (Pending, [GetStarterPack ''at://bob/app.bsky.graph.list/xyz'']) \<and>
   createListFromStarterPack a_platform (ListConverter_new an_agent) unanswered_short_page
     = (Rejected (Error
          ''Failed to create list: Network request failed: signal is aborted without reason''),
        [Fetch ''https://go.bsky.app/abc123'' (Some 5000)])"
  by (simp add: run_defs agent_defs pack_silent_def unanswered_short_page_def abort_error_def)

section \<open>Pages that are no starter pack\<close>

text \<open>
  C5, as the code has it. For every URL whose host name is not \<^verbatim>\<open>bsky.app\<close> or
  whose path starts with none of the three prefixes, \<^verbatim>\<open>isStarterPackUrl\<close> is false
  and no request is issued: the listener of page navigation does nothing, and
  \<^verbatim>\<open>handleCreateList\<close> answers with the failure \<^verbatim>\<open>Invalid URL\<close>.
\<close>

theorem not_a_starter_pack_page:
  assumes "hostname u \<noteq> ''bsky.app'' \<or>
           \<not> (startsWith (pathname u) ''/starter-pack/'' \<or>
              startsWith (pathname u) ''/start/'' \<or>
              startsWith (pathname u) ''/starter-pack-short/'')"
  shows "isStarterPackUrl (Some u) = Inr False \<and>
         listener pf (Some u) = (Fulfilled (), []) \<and>
         handleCreateList pf mh \<lparr>tab_url = Some u\<rparr>
           = (Fulfilled \<lparr>success = False, data = None, error = Some ''Invalid URL''\<rparr>, [])"
proof -
  have "isStarterPackUrl (Some u) = Inr False"
    using assms by (auto simp: isStarterPackUrl_def URL_new_def)
  then show ?thesis
    by (simp add: listener_def handleCreateList_def createResponse_def)
qed

theorem other_host_is_not_applicable:
  "isStarterPackUrl (Some other_page) = Inr False \<and>
   listener a_platform (Some other_page) = (Fulfilled (), []) \<and>
   handleCreateList a_platform a_handler \<lparr>tab_url = Some other_page\<rparr>
     = (Fulfilled \<lparr>success = False, data = None, error = Some ''Invalid URL''\<rparr>, [])"
proof -
  have "hostname other_page \<noteq> ''bsky.app'' \<or>
           \<not> (startsWith (pathname other_page) ''/starter-pack/'' \<or>
              startsWith (pathname other_page) ''/start/'' \<or>
              startsWith (pathname other_page) ''/starter-pack-short/'')"
    by (simp add: other_page_def)
  then show ?thesis
    by (rule not_a_starter_pack_page)
qed

text \<open>
  The claim as the specification states it fails: the handler reports such a page as an
  error.
\<close>

theorem not_applicable_is_reported_as_error:
  "isStarterPackUrl (Some foreign_page) = Inr False \<and>
   handleCreateList a_platform a_handler \<lparr>tab_url = Some foreign_page\<rparr>
     = (Fulfilled \<lparr>success = False, data = None, error = Some ''Invalid URL''\<rparr>, [])"
  by (simp add: handler_defs foreign_page_def URL_new_def startsWith_def)

section \<open>The identifier of a canonical URL\<close>

text \<open>
  C6. For a URL whose path is \<^verbatim>\<open>/starter-pack/{handle}/{key}\<close> or
  \<^verbatim>\<open>/start/{handle}/{key}\<close>, on any host, \<^verbatim>\<open>getAtUri\<close> returns exactly
  \<^verbatim>\<open>at://{handle}/app.bsky.graph.list/{key}\<close>, and that is the identifier the
  converter derives for it, without a request.
\<close>

theorem canonical_url_derives_at_uri:
  assumes "first = ''starter-pack'' \<or> first = ''start''"
      and "hnd \<noteq> []" and "CHR ''/'' \<notin> set hnd"
      and "rkey \<noteq> []" and "CHR ''/'' \<notin> set rkey"
  shows "getAtUri (Some \<lparr>hostname = h, pathname = ''/'' @ first @ ''/'' @ hnd @ ''/'' @ rkey\<rparr>)
           = Inr (''at://'' @ hnd @ ''/app.bsky.graph.list/'' @ rkey) \<and>
         getStarterPackUri pf this
             \<lparr>hostname = h, pathname = ''/'' @ first @ ''/'' @ hnd @ ''/'' @ rkey\<rparr>
           = (Fulfilled (''at://'' @ hnd @ ''/app.bsky.graph.list/'' @ rkey), [])"
proof -
  have f: "CHR ''/'' \<notin> set first" "first \<noteq> []"
    using assms(1) by auto
  have "path_segments (''/'' @ first @ ''/'' @ hnd @ ''/'' @ rkey) = [first, hnd, rkey]"
    using path_segments_three[OF f(1) assms(3) assms(5) f(2) assms(2) assms(4)] by simp
  then have a: "getAtUri (Some \<lparr>hostname = h, pathname = ''/'' @ first @ ''/'' @ hnd @ ''/'' @ rkey\<rparr>)
           = Inr (''at://'' @ hnd @ ''/app.bsky.graph.list/'' @ rkey)"
    by (simp add: getAtUri_def URL_new_def at_index_def template_def)
  have "\<not> startsWith (''/'' @ first @ ''/'' @ hnd @ ''/'' @ rkey) ''/starter-pack-short/''"
    using assms(1) by (auto simp: startsWith_def)
  then show ?thesis
    using a by (simp add: getStarterPackUri_def)
qed

theorem canonical_url_alice:
  "getAtUri (Some \<lparr>hostname = ''bsky.app'', pathname = ''/starter-pack/alice/abc123''\<rparr>)
     = Inr ''at://alice/app.bsky.graph.list/abc123'' \<and>
   getStarterPackUri a_platform (ListConverter_new an_agent)
       \<lparr>hostname = ''bsky.app'', pathname = ''/starter-pack/alice/abc123''\<rparr>
     = (Fulfilled ''at://alice/app.bsky.graph.list/abc123'', [])"
  using canonical_url_derives_at_uri[of "''starter-pack''" "''alice''" "''abc123''" "''bsky.app''"
      a_platform "ListConverter_new an_agent"]
  by simp

section \<open>Paths without handle\<close>

text \<open>
  A short link without code is refused by \<^verbatim>\<open>getShortCode\<close> before any request; a
  path with fewer than two segments passes \<^verbatim>\<open>getAtUri\<close>.
\<close>

lemma short_link_without_code:
  assumes "startsWith (pathname u) ''/starter-pack-short/''"
      and "length (path_segments (pathname u)) < 2"
  shows "createListFromStarterPack pf this u
           = (Rejected (Error ''Failed to create list: Invalid URL path structure''), [])"
proof -
  have "pathname u \<noteq> []"
    using assms(1) by (auto simp: startsWith_def)
  then have "getShortCode u = Inl (Error ''Invalid URL path structure'')"
    using assms(2) by (simp add: getShortCode_def)
  then have "getStarterPackUri pf this u = (Rejected (Error ''Invalid URL path structure''), [])"
    using assms(1) by (simp add: getStarterPackUri_def)
  then show ?thesis
    by (simp add: createListFromStarterPack_def try_createList_def await_Rejected)
qed

lemma canonical_without_handle:
  assumes "length (path_segments (pathname u)) < 2"
  shows "getAtUri (Some u) = Inr ''at://undefined/app.bsky.graph.list/undefined''"
  using assms by (simp add: getAtUri_def URL_new_def at_index_def template_def)

text \<open>
  C7 at the page \<^verbatim>\<open>https://bsky.app/starter-pack/\<close>: it is a starter-pack URL with
  one path segment, \<^verbatim>\<open>getAtUri\<close> derives an identifier from it without error, and
  the run goes on to fetch that identifier and to create the list.
\<close>

theorem canonical_url_without_handle_is_derived:
  "isStarterPackUrl (Some bare_page) = Inr True \<and>
   path_segments (pathname bare_page) = [''starter-pack''] \<and>
   getAtUri (Some bare_page) = Inr ''at://undefined/app.bsky.graph.list/undefined'' \<and>
   fst (createListFromStarterPack a_platform (ListConverter_new an_agent) bare_page)
     = Fulfilled created \<and>
   take 1 (snd (createListFromStarterPack a_platform (ListConverter_new an_agent) bare_page))
     = [GetStarterPack ''at://undefined/app.bsky.graph.list/undefined'']"
  by (simp add: run_defs agent_defs bare_page_def isStarterPackUrl_def)

section \<open>Short links\<close>

lemma one_redirect_per_run:
  assumes "startsWith (pathname u) ''/starter-pack-short/''"
      and "getShortCode u = Inr code"
  shows "filter is_redirect (snd (createListFromStarterPack pf this u))
           = [Fetch (''https://go.bsky.app/'' @ code) (Some (timeout (httpClient this)))] \<and>
         (\<forall>x. fst (fetchStarterPackRedirect pf this code) = Fulfilled (Body x) \<longrightarrow>
            getStarterPackUri pf this u
              = (settle (getAtUri x),
                 [Fetch (''https://go.bsky.app/'' @ code) (Some (timeout (httpClient this)))]))"
proof -
  have "filter is_redirect (snd (createListFromStarterPack pf this u))
          = filter is_redirect (snd (getStarterPackUri pf this u))"
    by (simp add: createListFromStarterPack_log try_createList_redirects)
  also have "\<dots> = [Fetch (''https://go.bsky.app/'' @ code) (Some (timeout (httpClient this)))]"
    using assms by (simp add: getStarterPackUri_log startsWith_def)
  finally have one: "filter is_redirect (snd (createListFromStarterPack pf this u))
           = [Fetch (''https://go.bsky.app/'' @ code) (Some (timeout (httpClient this)))]" .
  have "getStarterPackUri pf this u
          = (settle (getAtUri x),
             [Fetch (''https://go.bsky.app/'' @ code) (Some (timeout (httpClient this)))])"
    if "fst (fetchStarterPackRedirect pf this code) = Fulfilled (Body x)" for x
  proof -
    have "snd (fetchStarterPackRedirect pf this code)
            = [Fetch (''https://go.bsky.app/'' @ code) (Some (timeout (httpClient this)))]"
      by (simp add: fetchStarterPackRedirect_def HttpClient_fetch_log)
    with that have "fetchStarterPackRedirect pf this code
            = (Fulfilled (Body x),
               [Fetch (''https://go.bsky.app/'' @ code) (Some (timeout (httpClient this)))])"
      by (simp add: prod_eq_iff)
    then show ?thesis
      using assms by (simp add: getStarterPackUri_def await_Fulfilled redirect_url_def)
  qed
  with one show ?thesis by blast
qed

lemma getShortCode_short_link:
  assumes "code \<noteq> []" and "CHR ''/'' \<notin> set code"
  shows "getShortCode \<lparr>hostname = h, pathname = ''/starter-pack-short/'' @ code\<rparr> = Inr code"
proof -
  have "path_segments (''/starter-pack-short/'' @ code)
          = path_segments ([] @ CHR ''/'' # (''starter-pack-short'' @ CHR ''/'' # code))"
    by simp
  also have "\<dots> = path_segments (''starter-pack-short'' @ CHR ''/'' # code)"
    by (subst path_segments_Cons) simp_all
  also have "\<dots> = ''starter-pack-short'' # path_segments code"
    by (subst path_segments_Cons) simp_all
  also have "\<dots> = [''starter-pack-short'', code]"
    using assms by (simp add: path_segments_last)
  finally show ?thesis
    by (simp add: getShortCode_def)
qed

lemma getAtUri_three_segments:
  assumes "pathname target = ''/'' @ first @ ''/'' @ hnd @ ''/'' @ rkey"
      and "first \<noteq> []" and "CHR ''/'' \<notin> set first"
      and "hnd \<noteq> []" and "CHR ''/'' \<notin> set hnd"
      and "rkey \<noteq> []" and "CHR ''/'' \<notin> set rkey"
  shows "getAtUri (Some target) = Inr (''at://'' @ hnd @ ''/app.bsky.graph.list/'' @ rkey)"
proof -
  have "path_segments (pathname target) = [first, hnd, rkey]"
    using path_segments_three[OF assms(3) assms(5) assms(7) assms(2) assms(4) assms(6)] assms(1)
    by simp
  then show ?thesis
    by (simp add: getAtUri_def URL_new_def at_index_def template_def)
qed

lemma answered_redirect:
  assumes "settles_after (go_bsky_app pf (''https://go.bsky.app/'' @ code)) = Some d"
      and "d < timeout (httpClient this)"
      and "settled (go_bsky_app pf (''https://go.bsky.app/'' @ code)) = Inr resp"
      and "ok resp"
  shows "fetchStarterPackRedirect pf this code
           = (json resp, [Fetch (''https://go.bsky.app/'' @ code) (Some (timeout (httpClient this)))])"
  using assms by (simp add: fetchStarterPackRedirect_def HttpClient_fetch_def fetch_def)

lemma pack_fetch_follows:
  assumes "getStarterPackUri pf this u = (Fulfilled atUri, l0)"
  shows "\<exists>rest. snd (createListFromStarterPack pf this u) = l0 @ GetStarterPack atUri # rest"
  using assms
  by (simp add: createListFromStarterPack_log try_createList_def snd_await getStarterPack_def)

text \<open>
  C8. For a short-link URL \<^verbatim>\<open>/starter-pack-short/{code}\<close> the whole run issues
  exactly one request to the redirector, whatever happens later. When the redirector
  answers that request in time with an ok response whose body has the URL of a page
  \<^verbatim>\<open>/starter-pack/{handle}/{key}\<close>, the identifier derived is
  \<^verbatim>\<open>at://{handle}/app.bsky.graph.list/{key}\<close>, and the next request of the run is the
  fetch of the pack with that identifier: the code \<^verbatim>\<open>xyz789\<close> that resolves to
  \<^verbatim>\<open>/starter-pack/carol/k1\<close> derives \<^verbatim>\<open>at://carol/app.bsky.graph.list/k1\<close>.
\<close>

theorem short_link_one_redirect:
  assumes "code \<noteq> []" and "CHR ''/'' \<notin> set code"
  shows "filter is_redirect (snd (createListFromStarterPack pf this
             \<lparr>hostname = h, pathname = ''/starter-pack-short/'' @ code\<rparr>))
           = [Fetch (''https://go.bsky.app/'' @ code) (Some (timeout (httpClient this)))] \<and>
         (\<forall>d resp target first hnd rkey.
            settles_after (go_bsky_app pf (''https://go.bsky.app/'' @ code)) = Some d \<longrightarrow>
            d < timeout (httpClient this) \<longrightarrow>
            settled (go_bsky_app pf (''https://go.bsky.app/'' @ code)) = Inr resp \<longrightarrow>
            ok resp \<longrightarrow>
            json resp = Fulfilled (Body (Some target)) \<longrightarrow>
            pathname target = ''/'' @ first @ ''/'' @ hnd @ ''/'' @ rkey \<longrightarrow>
            first \<noteq> [] \<longrightarrow> CHR ''/'' \<notin> set first \<longrightarrow>
            hnd \<noteq> [] \<longrightarrow> CHR ''/'' \<notin> set hnd \<longrightarrow>
            rkey \<noteq> [] \<longrightarrow> CHR ''/'' \<notin> set rkey \<longrightarrow>
            getStarterPackUri pf this \<lparr>hostname = h, pathname = ''/starter-pack-short/'' @ code\<rparr>
              = (Fulfilled (''at://'' @ hnd @ ''/app.bsky.graph.list/'' @ rkey),
                 [Fetch (''https://go.bsky.app/'' @ code) (Some (timeout (httpClient this)))]) \<and>
            take 2 (snd (createListFromStarterPack pf this
                \<lparr>hostname = h, pathname = ''/starter-pack-short/'' @ code\<rparr>))
              = [Fetch (''https://go.bsky.app/'' @ code) (Some (timeout (httpClient this))),
                 GetStarterPack (''at://'' @ hnd @ ''/app.bsky.graph.list/'' @ rkey)])"
proof -
  let ?u = "\<lparr>hostname = h, pathname = ''/starter-pack-short/'' @ code\<rparr>"
  let ?f = "Fetch (''https://go.bsky.app/'' @ code) (Some (timeout (httpClient this)))"
  have 1: "startsWith (pathname ?u) ''/starter-pack-short/''"
    by (simp add: startsWith_def)
  have 2: "getShortCode ?u = Inr code"
    using assms by (rule getShortCode_short_link)
  have one: "filter is_redirect (snd (createListFromStarterPack pf this ?u)) = [?f]"
    using one_redirect_per_run[OF 1 2] by blast
  have derived: "getStarterPackUri pf this ?u
              = (Fulfilled (''at://'' @ hnd @ ''/app.bsky.graph.list/'' @ rkey), [?f]) \<and>
            take 2 (snd (createListFromStarterPack pf this ?u))
              = [?f, GetStarterPack (''at://'' @ hnd @ ''/app.bsky.graph.list/'' @ rkey)]"
    if r: "settles_after (go_bsky_app pf (''https://go.bsky.app/'' @ code)) = Some d"
          "d < timeout (httpClient this)"
          "settled (go_bsky_app pf (''https://go.bsky.app/'' @ code)) = Inr resp"
          "ok resp"
      and b: "json resp = Fulfilled (Body (Some target))"
      and p: "pathname target = ''/'' @ first @ ''/'' @ hnd @ ''/'' @ rkey"
          "first \<noteq> []" "CHR ''/'' \<notin> set first"
          "hnd \<noteq> []" "CHR ''/'' \<notin> set hnd"
          "rkey \<noteq> []" "CHR ''/'' \<notin> set rkey"
    for d resp target first hnd rkey
  proof -
    have "fetchStarterPackRedirect pf this code = (Fulfilled (Body (Some target)), [?f])"
      using answered_redirect[OF r] b by simp
    moreover have "getAtUri (Some target)
        = Inr (''at://'' @ hnd @ ''/app.bsky.graph.list/'' @ rkey)"
      using p by (rule getAtUri_three_segments)
    ultimately have g: "getStarterPackUri pf this ?u
        = (Fulfilled (''at://'' @ hnd @ ''/app.bsky.graph.list/'' @ rkey), [?f])"
      using 1 2 by (simp add: getStarterPackUri_def await_Fulfilled redirect_url_def)
    from pack_fetch_follows[OF g] obtain rest where
      "snd (createListFromStarterPack pf this ?u)
         = [?f] @ GetStarterPack (''at://'' @ hnd @ ''/app.bsky.graph.list/'' @ rkey) # rest"
      by blast
    then have "take 2 (snd (createListFromStarterPack pf this ?u))
         = [?f, GetStarterPack (''at://'' @ hnd @ ''/app.bsky.graph.list/'' @ rkey)]"
      by (simp add: numeral_2_eq_2)
    with g show ?thesis by simp
  qed
  from one derived show ?thesis by blast
qed

theorem short_link_xyz789:
  "filter is_redirect (snd (createListFromStarterPack a_platform (ListConverter_new an_agent) short_page))
     = [Fetch ''https://go.bsky.app/xyz789'' (Some 5000)] \<and>
   getStarterPackUri a_platform (ListConverter_new an_agent) short_page
     = (Fulfilled ''at://carol/app.bsky.graph.list/k1'',
        [Fetch ''https://go.bsky.app/xyz789'' (Some 5000)]) \<and>
   take 2 (snd (createListFromStarterPack a_platform (ListConverter_new an_agent) short_page))
     = [Fetch ''https://go.bsky.app/xyz789'' (Some 5000),
        GetStarterPack ''at://carol/app.bsky.graph.list/k1'']"
proof -
  let ?r = "go_bsky_app a_platform (''https://go.bsky.app/'' @ ''xyz789'')"
  let ?resp = "Response True 200 (Fulfilled (Body (Some carol_page)))"
  have c: "''xyz789'' \<noteq> []" "CHR ''/'' \<notin> set ''xyz789''"
    by simp_all
  have r: "settles_after ?r = Some 120"
      "120 < timeout (httpClient (ListConverter_new an_agent))"
      "settled ?r = Inr ?resp" "ok ?resp" "json ?resp = Fulfilled (Body (Some carol_page))"
    by (simp_all add: a_platform_def ListConverter_new_def HttpClient_new_def)
  have p: "pathname carol_page = ''/'' @ ''starter-pack'' @ ''/'' @ ''carol'' @ ''/'' @ ''k1''"
      "''starter-pack'' \<noteq> []" "CHR ''/'' \<notin> set ''starter-pack''"
      "''carol'' \<noteq> []" "CHR ''/'' \<notin> set ''carol''"
      "''k1'' \<noteq> []" "CHR ''/'' \<notin> set ''k1''"
    by (simp_all add: carol_page_def)
  from short_link_one_redirect[OF c, of a_platform "ListConverter_new an_agent" "''bsky.app''"]
  have one: "filter is_redirect (snd (createListFromStarterPack a_platform (ListConverter_new an_agent)
             \<lparr>hostname = ''bsky.app'', pathname = ''/starter-pack-short/'' @ ''xyz789''\<rparr>))
           = [Fetch (''https://go.bsky.app/'' @ ''xyz789'')
                (Some (timeout (httpClient (ListConverter_new an_agent))))]"
    and rest: "\<And>d resp target first hnd rkey.
            settles_after ?r = Some d \<Longrightarrow>
            d < timeout (httpClient (ListConverter_new an_agent)) \<Longrightarrow>
            settled ?r = Inr resp \<Longrightarrow> ok resp \<Longrightarrow>
            json resp = Fulfilled (Body (Some target)) \<Longrightarrow>
            pathname target = ''/'' @ first @ ''/'' @ hnd @ ''/'' @ rkey \<Longrightarrow>
            first \<noteq> [] \<Longrightarrow> CHR ''/'' \<notin> set first \<Longrightarrow>
            hnd \<noteq> [] \<Longrightarrow> CHR ''/'' \<notin> set hnd \<Longrightarrow>
            rkey \<noteq> [] \<Longrightarrow> CHR ''/'' \<notin> set rkey \<Longrightarrow>
            getStarterPackUri a_platform (ListConverter_new an_agent)
                \<lparr>hostname = ''bsky.app'', pathname = ''/starter-pack-short/'' @ ''xyz789''\<rparr>
              = (Fulfilled (''at://'' @ hnd @ ''/app.bsky.graph.list/'' @ rkey),
                 [Fetch (''https://go.bsky.app/'' @ ''xyz789'')
                    (Some (timeout (httpClient (ListConverter_new an_agent))))]) \<and>
            take 2 (snd (createListFromStarterPack a_platform (ListConverter_new an_agent)
                \<lparr>hostname = ''bsky.app'', pathname = ''/starter-pack-short/'' @ ''xyz789''\<rparr>))
              = [Fetch (''https://go.bsky.app/'' @ ''xyz789'')
                   (Some (timeout (httpClient (ListConverter_new an_agent)))),
                 GetStarterPack (''at://'' @ hnd @ ''/app.bsky.graph.list/'' @ rkey)]"
    by blast+
  from one rest[OF r p] show ?thesis
    by (simp add: short_page_def ListConverter_new_def HttpClient_new_def)
qed

section \<open>A list without members\<close>

text \<open>
  C9, as the code has it. When the list that was fetched has no member and the list is
  created, the run is fulfilled with the record the service returned for the new list;
  its requests end with the creation of the list and none creates a list item.
\<close>

theorem empty_list_is_replicated:
  assumes "getStarterPackUri pf this u = (Fulfilled atUri, l0)"
      and "getStarterPack_xrpc (lc_agent this) atUri = Fulfilled sp"
      and "sp_list_uri sp = Some a"
      and "getList_xrpc (lc_agent this) a = Fulfilled out"
      and "gl_items out = []"
      and "createRecord_xrpc (lc_agent this) 0
             (list_input pf this (lv_name (gl_list out)) (lv_description (gl_list out)))
           = Fulfilled newList"
  shows "createListFromStarterPack pf this u
           = (Fulfilled newList,
              l0 @ [GetStarterPack atUri, GetList a,
                    CreateRecord (list_input pf this (lv_name (gl_list out))
                      (lv_description (gl_list out)))]) \<and>
         filter is_member_create (snd (createListFromStarterPack pf this u)) = []"
proof -
  have "try_createList pf this u
          = (Fulfilled newList,
             l0 @ [GetStarterPack atUri, GetList a,
                   CreateRecord (list_input pf this (lv_name (gl_list out))
                     (lv_description (gl_list out)))])"
    using try_createList_resolved[OF assms(1-4) refl] assms(5,6)
    by (simp add: addUsersToList_result addUsersToList_log addUserPromises_Nil)
  then have "createListFromStarterPack pf this u
          = (Fulfilled newList,
             l0 @ [GetStarterPack atUri, GetList a,
                   CreateRecord (list_input pf this (lv_name (gl_list out))
                     (lv_description (gl_list out)))])"
    by (simp add: createListFromStarterPack_def)
  then show ?thesis
    using no_member_create_before[OF assms(1)] by simp
qed

theorem empty_list_example:
  "createListFromStarterPack a_platform (ListConverter_new empty_list) bob_page
     = (Fulfilled created,
        [GetStarterPack ''at://bob/app.bsky.graph.list/xyz'',
         GetList ''at://bob/app.bsky.graph.list/xyz'',
         CreateRecord (list_input a_platform (ListConverter_new empty_list) ''Friends'' (Some ''d''))]) \<and>
   filter is_member_create
     (snd (createListFromStarterPack a_platform (ListConverter_new empty_list) bob_page)) = []"
proof -
  have 1: "getStarterPackUri a_platform (ListConverter_new empty_list) bob_page
             = (Fulfilled ''at://bob/app.bsky.graph.list/xyz'', [])"
    by (simp add: run_defs bob_page_def)
  have 2: "getStarterPack_xrpc (lc_agent (ListConverter_new empty_list))
             ''at://bob/app.bsky.graph.list/xyz''
             = Fulfilled \<lparr>sp_list_uri = Some ''at://bob/app.bsky.graph.list/xyz''\<rparr>"
    by (simp add: ListConverter_new_def empty_list_def an_agent_def)
  have 3: "sp_list_uri \<lparr>sp_list_uri = Some ''at://bob/app.bsky.graph.list/xyz''\<rparr>
             = Some ''at://bob/app.bsky.graph.list/xyz''"
    by simp
  have 4: "getList_xrpc (lc_agent (ListConverter_new empty_list))
             ''at://bob/app.bsky.graph.list/xyz'' = Fulfilled (friends\<lparr>gl_items := []\<rparr>)"
    by (simp add: ListConverter_new_def empty_list_def an_agent_def)
  have 5: "gl_items (friends\<lparr>gl_items := []\<rparr>) = []"
    by simp
  have 6: "createRecord_xrpc (lc_agent (ListConverter_new empty_list)) 0
             (list_input a_platform (ListConverter_new empty_list)
                (lv_name (gl_list (friends\<lparr>gl_items := []\<rparr>)))
                (lv_description (gl_list (friends\<lparr>gl_items := []\<rparr>))))
             = Fulfilled created"
    by (simp add: ListConverter_new_def empty_list_def an_agent_def)
  show ?thesis
    using empty_list_is_replicated[OF 1 2 3 4 5 6] by (simp add: friends_def)
qed

text \<open>
  The claim as the specification states it fails: the result of the run is the record
  with the two fields \<^verbatim>\<open>uri\<close> and \<^verbatim>\<open>cid\<close> that the service returned for the
  creation of the list, as it is; it has no set of succeeded members and no sequence of
  failed members that could be empty.
\<close>

theorem empty_list_result_is_the_list_record:
  "fst (createListFromStarterPack a_platform (ListConverter_new empty_list) bob_page)
     = Fulfilled \<lparr>uri = ''at://did:me/app.bsky.graph.list/new'', cid = ''bafy''\<rparr> \<and>
   fst (createListFromStarterPack a_platform (ListConverter_new empty_list) bob_page)
     = createRecord_xrpc empty_list 0
         (list_input a_platform (ListConverter_new empty_list) ''Friends'' (Some ''d''))"
  by (simp add: run_defs agent_defs empty_list_def)

section \<open>The response of the handler\<close>

text \<open>
  For a sender whose tab has a URL the handler never rejects, and a response it gives
  is either a success with data and no error or a failure with an error and no data.
\<close>

lemma handleCreateList_responds:
  "\<not> is_Rejected (fst (handleCreateList pf mh \<lparr>tab_url = Some u\<rparr>))"
  by (simp add: handleCreateList_def isStarterPackUrl_def URL_new_def
      split: prod.splits promise.splits)

lemma handleCreateList_shape:
  assumes "fst (handleCreateList pf mh \<lparr>tab_url = Some u\<rparr>) = Fulfilled r"
  shows "(success r \<and> data r \<noteq> None \<and> error r = None) \<or>
         (\<not> success r \<and> data r = None \<and> error r \<noteq> None)"
  using assms
  by (auto simp: handleCreateList_def isStarterPackUrl_def URL_new_def createResponse_def
      try_handleCreateList_def await_def
      split: prod.splits promise.splits if_splits sum.splits)

text \<open>
  C10 at a sender without tab: \<^verbatim>\<open>new URL(undefined)\<close> throws before the
  \<^verbatim>\<open>try\<close>, and the handler rejects instead of answering.
\<close>

theorem sender_without_tab_rejects:
  "handleCreateList a_platform a_handler \<lparr>tab_url = None\<rparr>
     = (Rejected (TypeError ''Failed to construct 'URL': Invalid URL''), [])"
  by (simp add: handler_defs URL_new_def)

end
